theory Spec2Isabelle
  imports Complex_Main "HOL-Library.Multiset"
begin

section \<open>The matching library of TensileLite\<close>

text \<open>
  The development follows \<^verbatim>\<open>Tensile/MatchingLibrary.hpp\<close>: the class template
  \<^verbatim>\<open>ProblemMatchingLibrary<MyProblem, MySolution>\<close>, one node of the hierarchy of
  solution libraries. The type variables stand for the template parameters and the opaque
  collaborators: \<open>'p\<close> is \<^verbatim>\<open>MyProblem\<close>, \<open>'h\<close> is \<^verbatim>\<open>Hardware\<close>, \<open>'s\<close> is the
  identity of a \<^verbatim>\<open>MySolution\<close> object. A \<^verbatim>\<open>std::shared_ptr<MySolution>\<close> is an
  \<open>'s option\<close>, \<open>None\<close> being the null pointer.
\<close>

subsection \<open>Data model\<close>

text \<open>
  Undefined behaviour of the C++ is a value of the model: dereferencing the null
  \<^verbatim>\<open>table\<close> pointer, indexing \<^verbatim>\<open>problems[0]\<close> of an empty vector, and dereferencing
  a null solution pointer. An operation returns \<open>Inl\<close> of the fault or \<open>Inr\<close> of its result.
\<close>

datatype fault = NullTable | EmptyBatch | NullSolution

type_synonym 's SolutionPtr = "'s option"

type_synonym 's SolutionSet = "'s option set"

type_synonym 's SolutionVector = "'s option list"

text \<open>
  Modelled from the spec: the enumeration \<^verbatim>\<open>SolutionLibrarySearchType\<close> is declared outside
  this header. The spec describes it as distinguishing DEFAULT (matched) from exhaustive
  enumeration; the header only ever compares a value with \<^verbatim>\<open>DEFAULT\<close> and hands it on.
\<close>

datatype SolutionLibrarySearchType = DEFAULT | EXHAUSTIVE

text \<open>
  Modelled from the spec: the class \<^verbatim>\<open>Debug\<close> is declared outside this header. It is the
  spec's diagnostics provider, process-wide and read at query time; here it is the
  record of the three flags this header reads, an explicit argument of every operation
  that calls \<^verbatim>\<open>Debug::Instance()\<close>. What the operations write to \<^verbatim>\<open>std::cout\<close> under
  \<^verbatim>\<open>printPropertyEvaluation\<close> and \<^verbatim>\<open>printLibraryLogicIndex\<close> is not part of the model
  (no returned value depends on it); the pointer dereference that the printing loop of
  \<^verbatim>\<open>findTopSolutions\<close> performs is.
\<close>

record Debug =
  enableDebugSelection :: bool
  printPropertyEvaluation :: bool
  printLibraryLogicIndex :: bool

text \<open>
  Modelled from the spec: the base class \<^verbatim>\<open>SolutionLibrary<MyProblem, MySolution>\<close> (the
  spec's Candidate Library) is declared outside this header. A nested library, the
  \<^verbatim>\<open>Element\<close> of a row, is known here only through the virtual methods the header calls on
  it, so it is the record of these methods. \<open>vFindBestSolution\<close> is the call
  \<^verbatim>\<open>library->findBestSolution(problem, hardware)\<close> that leaves the fitness pointer at its
  default \<^verbatim>\<open>nullptr\<close>, \<open>vFindBestSolutionGrouped\<close> the overload on a vector of problems. A
  row's element is taken to be a live library whose calls return.
\<close>

record ('p, 'h, 's) SolutionLibrary =
  vDescription :: string
  vGetSolutionByIndex :: "'p \<Rightarrow> 'h \<Rightarrow> int \<Rightarrow> 's SolutionPtr"
  vFindBestSolution :: "'p \<Rightarrow> 'h \<Rightarrow> 's SolutionPtr"
  vFindBestSolutionGrouped :: "'p list \<Rightarrow> 'h \<Rightarrow> 's SolutionPtr"
  vFindAllSolutions :: "'p \<Rightarrow> 'h \<Rightarrow> SolutionLibrarySearchType \<Rightarrow> 's SolutionSet"
  vFindAllSolutionsGroupedGemm ::
    "'p list \<Rightarrow> 'h \<Rightarrow> SolutionLibrarySearchType \<Rightarrow> 's SolutionSet"

type_synonym ('p, 'h, 's) Transform = "('p, 'h, 's) SolutionLibrary \<Rightarrow> 's SolutionPtr"

text \<open>
  Modelled from the spec: \<^verbatim>\<open>Matching::MatchingTable\<close> is declared in
  \<^verbatim>\<open>Tensile/PropertyMatching.hpp\<close>, another header. This header uses a table only
  through six methods, so the table is the record of these methods; what the spec says
  they compute is \<open>asMatchingTable\<close> below.
\<close>

record ('p, 'h, 's) MatchingTable =
  findBestMatch :: "'p \<Rightarrow> ('p, 'h, 's) Transform \<Rightarrow> 's SolutionPtr \<times> real"
  findBestEvaluationSolution :: "'p \<Rightarrow> 'h \<Rightarrow> ('p, 'h, 's) Transform \<Rightarrow> 's SolutionPtr"
  findTopMatch :: "'p \<Rightarrow> ('p, 'h, 's) Transform \<Rightarrow> int \<Rightarrow> 's SolutionVector"
  matchesInOrder :: "'p \<Rightarrow> ('p, 'h, 's) SolutionLibrary list"
  GetAll :: "('p, 'h, 's) SolutionLibrary list"
  tableDescription :: string

text \<open>The class itself has one data member, the shared pointer to its table.\<close>

record ('p, 'h, 's) ProblemMatchingLibrary =
  table :: "('p, 'h, 's) MatchingTable option"

subsection \<open>The operations of the header\<close>

text \<open>
  Modelled from the spec: the helper \<^verbatim>\<open>concatenate\<close> is defined outside this header; it
  streams its arguments one after the other into a string.
\<close>

definition concatenate :: "string list \<Rightarrow> string" where
  "concatenate parts = concat parts"

definition Type :: string where
  "Type = ''Matching''"

definition type :: "('p, 'h, 's) ProblemMatchingLibrary \<Rightarrow> string" where
  "type lib = Type"

definition description :: "('p, 'h, 's) ProblemMatchingLibrary \<Rightarrow> string" where
  "description lib =
     (case table lib of
        None \<Rightarrow> concatenate [type lib, '', table: nullptr'']
      | Some t \<Rightarrow> concatenate [type lib, '': '', tableDescription t])"

definition getSolutionByIndex ::
  "('p, 'h, 's) ProblemMatchingLibrary \<Rightarrow> 'p \<Rightarrow> 'h \<Rightarrow> int \<Rightarrow> fault + 's SolutionPtr" where
  "getSolutionByIndex lib problem hardware index =
     (let transform = (\<lambda>library. vGetSolutionByIndex library problem hardware index)
      in case table lib of
           None \<Rightarrow> Inl NullTable
         | Some t \<Rightarrow>
             (let (solution, fitness) = findBestMatch t problem transform
              in Inr solution))"

text \<open>
  The caller's \<^verbatim>\<open>double* fitness\<close> is \<open>None\<close> for \<^verbatim>\<open>nullptr\<close> and \<open>Some v\<close> for a
  pointer to a cell that holds \<open>v\<close>. The operation returns the solution together with the
  cell after the call. The local cell \<^verbatim>\<open>localFitness\<close> that stands in for a null pointer
  dies with the call.
\<close>

definition findBestSolution ::
  "Debug \<Rightarrow> ('p, 'h, 's) ProblemMatchingLibrary \<Rightarrow> 'p \<Rightarrow> 'h \<Rightarrow> real option
     \<Rightarrow> fault + ('s SolutionPtr \<times> real option)" where
  "findBestSolution dbg lib problem hardware fitness =
     (let useDebugSelection = enableDebugSelection dbg;
          transform = (\<lambda>library. vFindBestSolution library problem hardware)
      in if useDebugSelection then
           (case table lib of
              None \<Rightarrow> Inl NullTable
            | Some t \<Rightarrow>
                (let evaluationSolution = findBestEvaluationSolution t problem hardware transform
                 in Inr (evaluationSolution, fitness)))
         else
           (case table lib of
              None \<Rightarrow> Inl NullTable
            | Some t \<Rightarrow>
                (let (solution, f) = findBestMatch t problem transform
                 in Inr (solution, case fitness of None \<Rightarrow> None | Some _ \<Rightarrow> Some f))))"

text \<open>
  The loop \<^verbatim>\<open>for(auto const& row : matches) rv.insert(...)\<close> of both enumerations, over
  the call \<open>rowSolutions\<close> made on each row.
\<close>

definition insertAll ::
  "(('p, 'h, 's) SolutionLibrary \<Rightarrow> 's SolutionSet) \<Rightarrow> ('p, 'h, 's) SolutionLibrary list
     \<Rightarrow> 's SolutionSet" where
  "insertAll rowSolutions matches = fold (\<lambda>row rv. rv \<union> rowSolutions row) matches {}"

definition findAllSolutions ::
  "Debug \<Rightarrow> ('p, 'h, 's) ProblemMatchingLibrary \<Rightarrow> 'p \<Rightarrow> 'h \<Rightarrow> SolutionLibrarySearchType
     \<Rightarrow> fault + 's SolutionSet" where
  "findAllSolutions dbg lib problem hardware searchType =
     (case table lib of
        None \<Rightarrow> Inl NullTable
      | Some t \<Rightarrow>
          (let matches = (if searchType \<noteq> DEFAULT then GetAll t else matchesInOrder t problem)
           in Inr (insertAll (\<lambda>row. vFindAllSolutions row problem hardware searchType) matches)))"

text \<open>
  The local \<^verbatim>\<open>matches\<close> of \<^verbatim>\<open>findAllSolutionsGroupedGemm\<close>: the conditional expression
  evaluates \<^verbatim>\<open>problems[0]\<close> in its second branch only.
\<close>

definition matchesGroupedGemm ::
  "('p, 'h, 's) ProblemMatchingLibrary \<Rightarrow> 'p list \<Rightarrow> SolutionLibrarySearchType
     \<Rightarrow> fault + ('p, 'h, 's) SolutionLibrary list" where
  "matchesGroupedGemm lib problems searchType =
     (case table lib of
        None \<Rightarrow> Inl NullTable
      | Some t \<Rightarrow>
          if searchType \<noteq> DEFAULT then Inr (GetAll t)
          else (case problems of
                  [] \<Rightarrow> Inl EmptyBatch
                | p0 # _ \<Rightarrow> Inr (matchesInOrder t p0)))"

definition findAllSolutionsGroupedGemm ::
  "Debug \<Rightarrow> ('p, 'h, 's) ProblemMatchingLibrary \<Rightarrow> 'p list \<Rightarrow> 'h \<Rightarrow> SolutionLibrarySearchType
     \<Rightarrow> fault + 's SolutionSet" where
  "findAllSolutionsGroupedGemm dbg lib problems hardware searchType =
     (case matchesGroupedGemm lib problems searchType of
        Inl f \<Rightarrow> Inl f
      | Inr matches \<Rightarrow>
          Inr (insertAll (\<lambda>row. vFindAllSolutionsGroupedGemm row problems hardware searchType)
                 matches))"

text \<open>
  Under \<^verbatim>\<open>printLibraryLogicIndex\<close> the printing loop reads \<^verbatim>\<open>rv->libraryLogicIndex\<close> of
  every returned pointer, a fault on a null one.
\<close>

definition findTopSolutions ::
  "Debug \<Rightarrow> ('p, 'h, 's) ProblemMatchingLibrary \<Rightarrow> 'p \<Rightarrow> 'h \<Rightarrow> int
     \<Rightarrow> fault + 's SolutionVector" where
  "findTopSolutions dbg lib problem hardware numSolutions =
     (let transform = (\<lambda>library. vFindBestSolution library problem hardware)
      in case table lib of
           None \<Rightarrow> Inl NullTable
         | Some t \<Rightarrow>
             (let solutions = findTopMatch t problem transform numSolutions
              in if printLibraryLogicIndex dbg \<and> None \<in> set solutions then Inl NullSolution
                 else Inr solutions))"

definition findTopSolutionsGroupedGemm ::
  "('p, 'h, 's) ProblemMatchingLibrary \<Rightarrow> 'p list \<Rightarrow> 'h \<Rightarrow> int
     \<Rightarrow> fault + 's SolutionVector" where
  "findTopSolutionsGroupedGemm lib problems hardware numSolutions =
     (let transform = (\<lambda>library. vFindBestSolutionGrouped library problems hardware)
      in case table lib of
           None \<Rightarrow> Inl NullTable
         | Some t \<Rightarrow>
             (case problems of
                [] \<Rightarrow> Inl EmptyBatch
              | p0 # _ \<Rightarrow> Inr (findTopMatch t p0 transform numSolutions)))"

subsection \<open>The matching table, as the spec describes it\<close>

text \<open>
  Modelled from the spec: the rows of a table live in \<^verbatim>\<open>Tensile/PropertyMatching.hpp\<close>.
  A row is one benchmarked reference point: a point in property space with its nested
  library.
\<close>

record ('k, 'p, 'h, 's) MatchingRow =
  point :: 'k
  nestedLibrary :: "('p, 'h, 's) SolutionLibrary"

text \<open>
  Modelled from the spec: the content of a table is absent with the rows. It is the rows
  in insertion order, the distance of a problem to a point (the metric is a parameter of
  the construction), the pluggable evaluation policy of the debug-selection path, which
  chooses among candidate solutions given with their fitness, and the summary that the
  description of the table prints.
\<close>

record ('k, 'p, 'h, 's) RowTable =
  rows :: "('k, 'p, 'h, 's) MatchingRow list"
  distance :: "'p \<Rightarrow> 'k \<Rightarrow> real"
  evaluationPolicy :: "'p \<Rightarrow> 'h \<Rightarrow> ('s \<times> real) list \<Rightarrow> 's SolutionPtr"
  summary :: string

text \<open>
  Modelled from the spec: the sentinel for unbounded distance, the largest finite
  \<^verbatim>\<open>double\<close>, which is also what the header puts into \<^verbatim>\<open>localFitness\<close>.
\<close>

definition numeric_limits_double_max :: real where
  "numeric_limits_double_max = (2 ^ 53 - 1) * 2 ^ 971"

text \<open>
  Modelled from the spec: the distance of a row, computed against the property vector of
  the query with the metric of the table, is absent with the table.
\<close>

definition rowDistance :: "('k, 'p, 'h, 's) RowTable \<Rightarrow> 'p \<Rightarrow> ('k, 'p, 'h, 's) MatchingRow \<Rightarrow> real" where
  "rowDistance t problem row = distance t problem (point row)"

text \<open>
  Modelled from the spec: \<^verbatim>\<open>rankedRows(problem)\<close>, absent with the table, is the rows in
  ascending distance, rows of equal distance in insertion order. \<open>sort_key\<close> is the stable
  insertion sort.
\<close>

definition rankedRows ::
  "('k, 'p, 'h, 's) RowTable \<Rightarrow> 'p \<Rightarrow> ('k, 'p, 'h, 's) MatchingRow list" where
  "rankedRows t problem = sort_key (rowDistance t problem) (rows t)"

text \<open>
  Modelled from the spec: \<^verbatim>\<open>allRows()\<close>, absent with the table, is every row, in the
  order of the table.
\<close>

definition allRows :: "('k, 'p, 'h, 's) RowTable \<Rightarrow> ('k, 'p, 'h, 's) MatchingRow list" where
  "allRows t = rows t"

text \<open>
  Modelled from the spec: the walk of \<^verbatim>\<open>findBestMatch\<close>, absent with the table. It asks
  \<open>resolve\<close> for each row in turn and returns the first non-empty result with the
  distance of its row as the fitness; when every row yields nothing, or there is no row,
  it returns no solution with the sentinel.
\<close>

fun firstResolved ::
  "(('k, 'p, 'h, 's) MatchingRow \<Rightarrow> real) \<Rightarrow> ('p, 'h, 's) Transform
     \<Rightarrow> ('k, 'p, 'h, 's) MatchingRow list \<Rightarrow> 's SolutionPtr \<times> real" where
  "firstResolved d resolve [] = (None, numeric_limits_double_max)"
| "firstResolved d resolve (row # rest) =
     (case resolve (nestedLibrary row) of
        Some s \<Rightarrow> (Some s, d row)
      | None \<Rightarrow> firstResolved d resolve rest)"

text \<open>
  Modelled from the spec: \<^verbatim>\<open>findBestMatch(problem, resolve)\<close>, absent with the table, is
  that walk over the ranked rows.
\<close>

definition specFindBestMatch ::
  "('k, 'p, 'h, 's) RowTable \<Rightarrow> 'p \<Rightarrow> ('p, 'h, 's) Transform \<Rightarrow> 's SolutionPtr \<times> real" where
  "specFindBestMatch t problem resolve =
     firstResolved (rowDistance t problem) resolve (rankedRows t problem)"

text \<open>
  Modelled from the spec: the walk of \<^verbatim>\<open>findTopMatch\<close>, absent with the table. It makes
  the same traversal and collects up to \<open>k\<close> distinct resolved solutions, each with the
  distance of the row that gave it, in the order met; it stops once \<open>k\<close> are collected
  or the rows are exhausted. Distinct is by the identity of the solution.
\<close>

fun collectResolved ::
  "(('k, 'p, 'h, 's) MatchingRow \<Rightarrow> real) \<Rightarrow> ('p, 'h, 's) Transform \<Rightarrow> int
     \<Rightarrow> ('k, 'p, 'h, 's) MatchingRow list \<Rightarrow> ('s \<times> real) list \<Rightarrow> ('s \<times> real) list" where
  "collectResolved d resolve k [] acc = acc"
| "collectResolved d resolve k (row # rest) acc =
     (if k \<le> int (length acc) then acc
      else (case resolve (nestedLibrary row) of
              None \<Rightarrow> collectResolved d resolve k rest acc
            | Some s \<Rightarrow>
                if s \<in> fst ` set acc then collectResolved d resolve k rest acc
                else collectResolved d resolve k rest (acc @ [(s, d row)])))"

text \<open>
  Modelled from the spec: the solutions that \<^verbatim>\<open>findTopMatch\<close> collects from the ranked
  rows, with their fitness.
\<close>

definition rankedTopMatch ::
  "('k, 'p, 'h, 's) RowTable \<Rightarrow> 'p \<Rightarrow> ('p, 'h, 's) Transform \<Rightarrow> int \<Rightarrow> ('s \<times> real) list" where
  "rankedTopMatch t problem resolve k =
     collectResolved (rowDistance t problem) resolve k (rankedRows t problem) []"

text \<open>
  Modelled from the spec: \<^verbatim>\<open>findTopMatch(problem, resolve, k)\<close>, absent with the table,
  returns the pointers to the collected solutions.
\<close>

definition specFindTopMatch ::
  "('k, 'p, 'h, 's) RowTable \<Rightarrow> 'p \<Rightarrow> ('p, 'h, 's) Transform \<Rightarrow> int \<Rightarrow> 's SolutionVector" where
  "specFindTopMatch t problem resolve k = map (\<lambda>(s, f). Some s) (rankedTopMatch t problem resolve k)"

text \<open>
  Modelled from the spec: the candidates of the evaluation path, absent with the table.
  The path is exhaustive: every row is asked, a row that resolves to nothing is skipped,
  and each solution comes with the distance of its row, in ranked order.
\<close>

definition resolvedCandidates ::
  "('k, 'p, 'h, 's) RowTable \<Rightarrow> 'p \<Rightarrow> ('p, 'h, 's) Transform \<Rightarrow> ('s \<times> real) list" where
  "resolvedCandidates t problem resolve =
     List.map_filter
       (\<lambda>row. map_option (\<lambda>s. (s, rowDistance t problem row)) (resolve (nestedLibrary row)))
       (rankedRows t problem)"

text \<open>
  Modelled from the spec: \<^verbatim>\<open>findBestEvaluationSolution(problem, hardware, resolve)\<close>,
  absent with the table, evaluates the candidates more broadly than the first resolvable
  nearest row; the criterion is the pluggable policy of the table. What it returns is
  one of the candidates or no solution, so a table without rows, or one none of whose
  rows resolves, yields no solution on this path as on every other.
\<close>

definition specFindBestEvaluationSolution ::
  "('k, 'p, 'h, 's) RowTable \<Rightarrow> 'p \<Rightarrow> 'h \<Rightarrow> ('p, 'h, 's) Transform \<Rightarrow> 's SolutionPtr" where
  "specFindBestEvaluationSolution t problem hardware resolve =
     (let candidates = resolvedCandidates t problem resolve
      in case evaluationPolicy t problem hardware candidates of
           None \<Rightarrow> None
         | Some s \<Rightarrow> if s \<in> fst ` set candidates then Some s else None)"

text \<open>
  Modelled from the spec: the table the header sees, assembled from the operations
  above.
\<close>

definition asMatchingTable :: "('k, 'p, 'h, 's) RowTable \<Rightarrow> ('p, 'h, 's) MatchingTable" where
  "asMatchingTable t =
     \<lparr> findBestMatch = specFindBestMatch t,
       findBestEvaluationSolution = specFindBestEvaluationSolution t,
       findTopMatch = specFindTopMatch t,
       matchesInOrder = (\<lambda>problem. map nestedLibrary (rankedRows t problem)),
       GetAll = map nestedLibrary (allRows t),
       tableDescription = summary t \<rparr>"

subsection \<open>Concrete libraries and tables\<close>

text \<open>
  Problems, hardware, solutions and points are natural numbers here. \<open>leaf s\<close> answers
  every query with the solution pointer \<open>s\<close>; \<open>batchLeaf\<close> answers a batch with a solution
  named after the length of the batch.
\<close>

definition leaf :: "nat option \<Rightarrow> (nat, nat, nat) SolutionLibrary" where
  "leaf s =
     \<lparr> vDescription = ''leaf'',
       vGetSolutionByIndex = (\<lambda>problem hardware index. s),
       vFindBestSolution = (\<lambda>problem hardware. s),
       vFindBestSolutionGrouped = (\<lambda>problems hardware. s),
       vFindAllSolutions = (\<lambda>problem hardware searchType. (case s of None \<Rightarrow> {} | Some x \<Rightarrow> {Some x})),
       vFindAllSolutionsGroupedGemm =
         (\<lambda>problems hardware searchType. (case s of None \<Rightarrow> {} | Some x \<Rightarrow> {Some x})) \<rparr>"

definition batchLeaf :: "(nat, nat, nat) SolutionLibrary" where
  "batchLeaf =
     \<lparr> vDescription = ''batch leaf'',
       vGetSolutionByIndex = (\<lambda>problem hardware index. None),
       vFindBestSolution = (\<lambda>problem hardware. Some 1),
       vFindBestSolutionGrouped = (\<lambda>problems hardware. Some (length problems)),
       vFindAllSolutions = (\<lambda>problem hardware searchType. {Some 1}),
       vFindAllSolutionsGroupedGemm = (\<lambda>problems hardware searchType. {Some (length problems)}) \<rparr>"

definition absDistance :: "nat \<Rightarrow> nat \<Rightarrow> real" where
  "absDistance problem p = \<bar>real p - real problem\<bar>"

text \<open>A table without rows, and a library on it.\<close>

definition emptyRows :: "(nat, nat, nat, nat) RowTable" where
  "emptyRows =
     \<lparr> rows = [], distance = absDistance,
       evaluationPolicy = (\<lambda>problem hardware candidates. None), summary = ''0 rows'' \<rparr>"

definition emptyLibrary :: "(nat, nat, nat) ProblemMatchingLibrary" where
  "emptyLibrary = \<lparr> table = Some (asMatchingTable emptyRows) \<rparr>"

text \<open>A library whose table pointer is null.\<close>

definition nullLibrary :: "(nat, nat, nat) ProblemMatchingLibrary" where
  "nullLibrary = \<lparr> table = None \<rparr>"

text \<open>
  The table of the spec's scenario for problem 10: the row inserted first is at distance
  5, the second at distance 2. The evaluation policy of this table takes the farthest
  candidate.
\<close>

definition twoRows :: "nat option \<Rightarrow> nat option \<Rightarrow> (nat, nat, nat, nat) RowTable" where
  "twoRows far near =
     \<lparr> rows = [\<lparr> point = 15, nestedLibrary = leaf far \<rparr>, \<lparr> point = 12, nestedLibrary = leaf near \<rparr>],
       distance = absDistance,
       evaluationPolicy =
         (\<lambda>problem hardware candidates.
            (case candidates of [] \<Rightarrow> None | c # cs \<Rightarrow> Some (fst (last candidates)))),
       summary = ''2 rows'' \<rparr>"

definition twoRowLibrary :: "nat option \<Rightarrow> nat option \<Rightarrow> (nat, nat, nat) ProblemMatchingLibrary" where
  "twoRowLibrary far near = \<lparr> table = Some (asMatchingTable (twoRows far near)) \<rparr>"

text \<open>
  The table of the spec's scenario with five rows, inserted out of order: for problem 10
  the rows rank by their points 11, 12, 13, 14, 15, and the rows of rank 2 and 4 resolve
  to nothing.
\<close>

definition fiveRows :: "(nat, nat, nat, nat) RowTable" where
  "fiveRows =
     \<lparr> rows = [\<lparr> point = 13, nestedLibrary = leaf (Some 3) \<rparr>,
               \<lparr> point = 11, nestedLibrary = leaf (Some 1) \<rparr>,
               \<lparr> point = 15, nestedLibrary = leaf (Some 5) \<rparr>,
               \<lparr> point = 12, nestedLibrary = leaf None \<rparr>,
               \<lparr> point = 14, nestedLibrary = leaf None \<rparr>],
       distance = absDistance,
       evaluationPolicy = (\<lambda>problem hardware candidates. None),
       summary = ''5 rows'' \<rparr>"

definition fiveRowLibrary :: "(nat, nat, nat) ProblemMatchingLibrary" where
  "fiveRowLibrary = \<lparr> table = Some (asMatchingTable fiveRows) \<rparr>"

text \<open>A table whose one row holds \<open>batchLeaf\<close>.\<close>

definition batchRows :: "(nat, nat, nat, nat) RowTable" where
  "batchRows =
     \<lparr> rows = [\<lparr> point = 12, nestedLibrary = batchLeaf \<rparr>],
       distance = absDistance,
       evaluationPolicy = (\<lambda>problem hardware candidates. None),
       summary = ''1 row'' \<rparr>"

definition batchLibrary :: "(nat, nat, nat) ProblemMatchingLibrary" where
  "batchLibrary = \<lparr> table = Some (asMatchingTable batchRows) \<rparr>"

text \<open>Two settings of the diagnostics flags.\<close>

definition quiet :: Debug where
  "quiet = \<lparr> enableDebugSelection = False, printPropertyEvaluation = False,
             printLibraryLogicIndex = False \<rparr>"

definition debugSelection :: Debug where
  "debugSelection = \<lparr> enableDebugSelection = True, printPropertyEvaluation = False,
                      printLibraryLogicIndex = False \<rparr>"

section \<open>Properties\<close>

subsection \<open>The loop of the enumerations\<close>

lemma insertAll_Union: "insertAll f ms = (\<Union>row\<in>set ms. f row)"
proof -
  have "fold (\<lambda>row rv. rv \<union> f row) ms acc = acc \<union> (\<Union>row\<in>set ms. f row)" for acc
    by (induction ms arbitrary: acc) auto
  then show ?thesis by (simp add: insertAll_def)
qed

subsection \<open>The table of the spec\<close>

lemma set_rankedRows: "set (rankedRows t p) = set (rows t)"
  by (simp add: rankedRows_def)

lemma sorted_rankedRows: "sorted (map (rowDistance t p) (rankedRows t p))"
  by (simp add: rankedRows_def)

lemma mset_rankedRows: "mset (rankedRows t p) = mset (rows t)"
  by (simp add: rankedRows_def)

lemma firstResolved_none:
  "(\<forall>row\<in>set rs. resolve (nestedLibrary row) = None) \<Longrightarrow>
     firstResolved d resolve rs = (None, numeric_limits_double_max)"
  by (induction rs) auto

lemma firstResolved_some:
  "firstResolved d resolve rs = (Some s, f) \<Longrightarrow>
     \<exists>row\<in>set rs. resolve (nestedLibrary row) = Some s \<and> f = d row"
  by (induction rs) (auto split: option.splits)

lemma specFindBestMatch_empty:
  "rows rt = [] \<Longrightarrow> specFindBestMatch rt p resolve = (None, numeric_limits_double_max)"
  by (simp add: specFindBestMatch_def rankedRows_def)

lemma collectResolved_length:
  "length (collectResolved d resolve k rs acc) \<le> max (length acc) (nat k)"
proof (induction rs arbitrary: acc)
  case Nil
  then show ?case by simp
next
  case (Cons row rest)
  show ?case
  proof (cases "k \<le> int (length acc)")
    case True
    then show ?thesis by simp
  next
    case False
    then have "max (length (acc @ [x])) (nat k) = max (length acc) (nat k)" for x
      by simp
    with False Cons.IH [of acc] Cons.IH [of "acc @ [x]" for x] show ?thesis
      by (simp split: option.split)
  qed
qed

lemma collectResolved_sorted:
  "sorted (map d rs) \<Longrightarrow> sorted (map snd acc) \<Longrightarrow>
   (\<forall>a\<in>set acc. \<forall>row\<in>set rs. snd a \<le> d row) \<Longrightarrow>
     sorted (map snd (collectResolved d resolve k rs acc))"
proof (induction rs arbitrary: acc)
  case Nil
  then show ?case by simp
next
  case (Cons row rest)
  have rest: "sorted (map d rest)" and low: "\<forall>r\<in>set rest. d row \<le> d r"
    using Cons.prems(1) by simp_all
  have keep: "sorted (map snd (collectResolved d resolve k rest acc))"
    using Cons.prems by (intro Cons.IH rest) simp_all
  have grow: "sorted (map snd (collectResolved d resolve k rest (acc @ [(s, d row)])))" for s
    using Cons.prems low by (intro Cons.IH rest) (auto simp: sorted_append)
  show ?case
    using Cons.prems(2) keep grow by (simp split: option.split)
qed

lemma collectResolved_resolved:
  "(s, f) \<in> set (collectResolved d resolve k rs acc) \<Longrightarrow>
     (s, f) \<in> set acc \<or> (\<exists>row\<in>set rs. resolve (nestedLibrary row) = Some s \<and> f = d row)"
proof (induction rs arbitrary: acc)
  case Nil
  then show ?case by simp
next
  case (Cons row rest)
  then show ?case
    by (fastforce split: if_splits option.splits)
qed

lemma collectResolved_distinct:
  "distinct (map fst acc) \<Longrightarrow> distinct (map fst (collectResolved d resolve k rs acc))"
  by (induction rs arbitrary: acc) (auto split: option.splits)

lemma collectResolved_cong:
  "(\<forall>row\<in>set rs. resolve (nestedLibrary row) = resolve' (nestedLibrary row)) \<Longrightarrow>
     collectResolved d resolve k rs acc = collectResolved d resolve' k rs acc"
  by (induction rs arbitrary: acc) (auto split: option.splits)

lemma specFindBestEvaluationSolution_empty:
  "rows rt = [] \<Longrightarrow> specFindBestEvaluationSolution rt p hw resolve = None"
  by (simp add: specFindBestEvaluationSolution_def resolvedCandidates_def rankedRows_def
      split: option.split)

lemma rankedTopMatch_empty: "rows rt = [] \<Longrightarrow> rankedTopMatch rt p resolve k = []"
  by (simp add: rankedTopMatch_def rankedRows_def)

subsection \<open>The concrete tables, ranked for problem 10\<close>

lemma twoRows_ranked:
  "rankedRows (twoRows far near) 10 =
     [\<lparr> point = 12, nestedLibrary = leaf near \<rparr>, \<lparr> point = 15, nestedLibrary = leaf far \<rparr>]"
  by (simp add: rankedRows_def twoRows_def rowDistance_def absDistance_def)

lemma twoRows_best:
  "findBestSolution quiet (twoRowLibrary (Some 7) (Some 8)) 10 0 (Some 0) = Inr (Some 8, Some 2)"
  by (simp add: findBestSolution_def Let_def quiet_def twoRowLibrary_def asMatchingTable_def
      specFindBestMatch_def twoRows_ranked leaf_def)
     (simp add: rowDistance_def twoRows_def absDistance_def)

lemma twoRows_fall_through:
  "findBestSolution quiet (twoRowLibrary (Some 7) None) 10 0 (Some 0) = Inr (Some 7, Some 5)"
  by (simp add: findBestSolution_def Let_def quiet_def twoRowLibrary_def asMatchingTable_def
      specFindBestMatch_def twoRows_ranked leaf_def)
     (simp add: rowDistance_def twoRows_def absDistance_def)

lemma fiveRows_ranked:
  "rankedRows fiveRows 10 =
     [\<lparr> point = 11, nestedLibrary = leaf (Some 1) \<rparr>,
      \<lparr> point = 12, nestedLibrary = leaf None \<rparr>,
      \<lparr> point = 13, nestedLibrary = leaf (Some 3) \<rparr>,
      \<lparr> point = 14, nestedLibrary = leaf None \<rparr>,
      \<lparr> point = 15, nestedLibrary = leaf (Some 5) \<rparr>]"
  by (simp add: rankedRows_def fiveRows_def rowDistance_def absDistance_def)

lemma fiveRows_top:
  "rankedTopMatch fiveRows 10 (\<lambda>library. vFindBestSolution library 10 0) 3 =
     [(1, 1), (3, 3), (5, 5)]"
  by (simp add: rankedTopMatch_def fiveRows_ranked leaf_def)
     (simp add: rowDistance_def fiveRows_def absDistance_def)

lemma batchRows_ranked: "rankedRows batchRows p = [\<lparr> point = 12, nestedLibrary = batchLeaf \<rparr>]"
  by (simp add: rankedRows_def batchRows_def)

subsection \<open>findBestSolution\<close>

lemma findBestSolution_quiet:
  "\<not> enableDebugSelection dbg \<Longrightarrow> table lib = Some t \<Longrightarrow>
     findBestSolution dbg lib p hw fitness =
       (let (solution, f) = findBestMatch t p (\<lambda>library. vFindBestSolution library p hw)
        in Inr (solution, map_option (\<lambda>_. f) fitness))"
  by (cases fitness) (simp_all add: findBestSolution_def Let_def split: prod.split)

text \<open>
  C1: with the debug-selection flag inactive, \<^verbatim>\<open>findBestSolution\<close> performs the table's
  \<^verbatim>\<open>findBestMatch\<close> with the resolver that asks a row's nested library for its best
  solution, writes the resulting fitness into the caller's cell when the pointer is not
  null, and returns the resolved solution. A null solution from the table is returned as
  it is, with no fault. On the table of the spec: if no row resolves, the result is the
  null solution with the sentinel fitness, and a solution that is returned is the best
  solution of the nested library of some row, with that row's distance as the fitness.
\<close>

theorem C1_best_match:
  "\<not> enableDebugSelection dbg \<Longrightarrow> table lib = Some t \<Longrightarrow>
     findBestSolution dbg lib p hw fitness =
       (let (solution, f) = findBestMatch t p (\<lambda>library. vFindBestSolution library p hw)
        in Inr (solution, map_option (\<lambda>_. f) fitness)) \<and>
     (fst (findBestMatch t p (\<lambda>library. vFindBestSolution library p hw)) = None \<longrightarrow>
        (\<exists>cell. findBestSolution dbg lib p hw fitness = Inr (None, cell))) \<and>
     (t = asMatchingTable rt \<longrightarrow>
        (\<forall>row\<in>set (rows rt). vFindBestSolution (nestedLibrary row) p hw = None) \<longrightarrow>
        findBestSolution dbg lib p hw fitness =
          Inr (None, map_option (\<lambda>_. numeric_limits_double_max) fitness)) \<and>
     (t = asMatchingTable rt \<longrightarrow>
        (\<forall>s cell. findBestSolution dbg lib p hw fitness = Inr (Some s, cell) \<longrightarrow>
           (\<exists>row\<in>set (rows rt). vFindBestSolution (nestedLibrary row) p hw = Some s \<and>
              cell = map_option (\<lambda>_. rowDistance rt p row) fitness)))"
proof (intro conjI impI allI)
  assume q: "\<not> enableDebugSelection dbg" and t: "table lib = Some t"
  show "findBestSolution dbg lib p hw fitness =
       (let (solution, f) = findBestMatch t p (\<lambda>library. vFindBestSolution library p hw)
        in Inr (solution, map_option (\<lambda>_. f) fitness))"
    by (rule findBestSolution_quiet [OF q t])
next
  assume q: "\<not> enableDebugSelection dbg" and t: "table lib = Some t"
    and n: "fst (findBestMatch t p (\<lambda>library. vFindBestSolution library p hw)) = None"
  then show "\<exists>cell. findBestSolution dbg lib p hw fitness = Inr (None, cell)"
    by (cases "findBestMatch t p (\<lambda>library. vFindBestSolution library p hw)")
      (simp add: findBestSolution_quiet [OF q t])
next
  assume q: "\<not> enableDebugSelection dbg" and t: "table lib = Some t"
    and rt: "t = asMatchingTable rt"
    and none: "\<forall>row\<in>set (rows rt). vFindBestSolution (nestedLibrary row) p hw = None"
  have "specFindBestMatch rt p (\<lambda>library. vFindBestSolution library p hw) =
          (None, numeric_limits_double_max)"
    unfolding specFindBestMatch_def
    by (rule firstResolved_none) (simp add: set_rankedRows none)
  then show "findBestSolution dbg lib p hw fitness =
          Inr (None, map_option (\<lambda>_. numeric_limits_double_max) fitness)"
    by (simp add: findBestSolution_quiet [OF q t] rt asMatchingTable_def)
next
  fix s cell
  assume q: "\<not> enableDebugSelection dbg" and t: "table lib = Some t"
    and rt: "t = asMatchingTable rt"
    and r: "findBestSolution dbg lib p hw fitness = Inr (Some s, cell)"
  obtain f where f: "specFindBestMatch rt p (\<lambda>library. vFindBestSolution library p hw) = (Some s, f)"
    and c: "cell = map_option (\<lambda>_. f) fitness"
    using r by (auto simp: findBestSolution_quiet [OF q t] rt asMatchingTable_def split: prod.splits)
  from f obtain row where "row \<in> set (rankedRows rt p)"
    "vFindBestSolution (nestedLibrary row) p hw = Some s" "f = rowDistance rt p row"
    unfolding specFindBestMatch_def by (blast dest: firstResolved_some)
  then show "\<exists>row\<in>set (rows rt). vFindBestSolution (nestedLibrary row) p hw = Some s \<and>
              cell = map_option (\<lambda>_. rowDistance rt p row) fitness"
    using c by (auto simp: set_rankedRows)
qed

text \<open>
  The two rows of the scenario, neither of which resolves; and the scenario itself, where
  the nearer row wins with fitness 2 and, when it resolves to nothing, the farther row
  with fitness 5.
\<close>

theorem C1_best_match_witness:
  "\<not> enableDebugSelection quiet \<and>
   table (twoRowLibrary None None) = Some (asMatchingTable (twoRows None None)) \<and>
   map (\<lambda>row. vFindBestSolution (nestedLibrary row) 10 0) (rows (twoRows None None)) = [None, None] \<and>
   findBestSolution quiet (twoRowLibrary None None) 10 0 (Some 0) =
     Inr (None, Some numeric_limits_double_max) \<and>
   findBestSolution quiet (twoRowLibrary (Some 7) (Some 8)) 10 0 (Some 0) = Inr (Some 8, Some 2) \<and>
   findBestSolution quiet (twoRowLibrary (Some 7) None) 10 0 (Some 0) = Inr (Some 7, Some 5)"
proof -
  have q: "\<not> enableDebugSelection quiet" by (simp add: quiet_def)
  have t: "table (twoRowLibrary None None) = Some (asMatchingTable (twoRows None None))"
    by (simp add: twoRowLibrary_def)
  have m: "map (\<lambda>row. vFindBestSolution (nestedLibrary row) 10 0) (rows (twoRows None None)) =
      [None, (None :: nat option)]"
    by (simp add: twoRows_def leaf_def)
  have n: "\<forall>row\<in>set (rows (twoRows None None)). vFindBestSolution (nestedLibrary row) 10 0 = None"
    by (simp add: twoRows_def leaf_def)
  have r: "findBestSolution quiet (twoRowLibrary None None) 10 0 (Some 0) =
      Inr (None, Some numeric_limits_double_max)"
    using C1_best_match [OF q t, of 10 0 "Some 0" "twoRows None None",
        THEN conjunct2, THEN conjunct2, THEN conjunct1] n
    by simp
  show ?thesis using q t m r twoRows_best twoRows_fall_through by simp
qed

text \<open>
  C5: with the debug-selection flag active, \<^verbatim>\<open>findBestSolution\<close> returns what the table's
  \<^verbatim>\<open>findBestEvaluationSolution\<close> returns for the same resolver and leaves the caller's
  fitness cell as it was; \<^verbatim>\<open>findBestMatch\<close> is not performed, so replacing it by any
  other function changes nothing.
\<close>

theorem C5_debug_selection:
  "enableDebugSelection dbg \<Longrightarrow> table lib = Some t \<Longrightarrow>
     findBestSolution dbg lib p hw fitness =
       Inr (findBestEvaluationSolution t p hw (\<lambda>library. vFindBestSolution library p hw), fitness) \<and>
     findBestSolution dbg (lib\<lparr>table := Some (t\<lparr>findBestMatch := g\<rparr>)\<rparr>) p hw fitness =
       findBestSolution dbg lib p hw fitness"
  by (simp add: findBestSolution_def Let_def)

text \<open>
  On the two rows, whose evaluation policy takes the farthest candidate, the evaluation
  path returns solution 7 where the nearest match is solution 8.
\<close>

theorem C5_debug_selection_witness:
  "enableDebugSelection debugSelection \<and>
   table (twoRowLibrary (Some 7) (Some 8)) = Some (asMatchingTable (twoRows (Some 7) (Some 8))) \<and>
   findBestSolution debugSelection (twoRowLibrary (Some 7) (Some 8)) 10 0 (Some 0) =
     Inr (Some 7, Some 0)"
proof -
  have d: "enableDebugSelection debugSelection" by (simp add: debugSelection_def)
  have t: "table (twoRowLibrary (Some 7) (Some 8)) =
      Some (asMatchingTable (twoRows (Some 7) (Some 8)))"
    by (simp add: twoRowLibrary_def)
  have c: "resolvedCandidates (twoRows (Some 7) (Some 8)) 10
      (\<lambda>library. vFindBestSolution library 10 0) = [(8, 2), (7, 5)]"
    by (simp add: resolvedCandidates_def twoRows_ranked leaf_def)
      (simp add: rowDistance_def twoRows_def absDistance_def)
  have e: "findBestEvaluationSolution (asMatchingTable (twoRows (Some 7) (Some 8))) 10 0
      (\<lambda>library. vFindBestSolution library 10 0) = Some 7"
    by (simp add: asMatchingTable_def specFindBestEvaluationSolution_def c)
      (simp add: twoRows_def)
  have r: "findBestSolution debugSelection (twoRowLibrary (Some 7) (Some 8)) 10 0 (Some 0) =
      Inr (Some 7, Some 0)"
    using C5_debug_selection [OF d t, of 10 0 "Some 0", THEN conjunct1] by (simp only: e)
  show ?thesis using d t r by simp
qed

subsection \<open>findTopSolutions\<close>

text \<open>
  C2: on the table of the spec, \<^verbatim>\<open>findTopSolutions\<close> returns what \<^verbatim>\<open>findTopMatch\<close>
  collects with the resolver that asks a row's nested library for its single best
  solution (\<^verbatim>\<open>findBestSolution\<close>, not the nested library's own top k). With \<open>ranked\<close> the
  collected solutions and their fitness: there are at most \<open>k\<close> of them, none of the
  returned pointers is null, the fitness ascends along the result, the solutions are
  distinct, and each one is the best solution of the nested library of a row of the
  table, whose distance is its fitness.
\<close>

theorem C2_top_solutions:
  "table lib = Some (asMatchingTable rt) \<Longrightarrow>
   ranked = rankedTopMatch rt p (\<lambda>library. vFindBestSolution library p hw) k \<Longrightarrow>
     findTopSolutions dbg lib p hw k = Inr (map (\<lambda>(s, f). Some s) ranked) \<and>
     (\<exists>solutions. findTopSolutions dbg lib p hw k = Inr solutions \<and>
        length solutions \<le> nat k \<and> None \<notin> set solutions) \<and>
     length ranked \<le> nat k \<and>
     sorted (map snd ranked) \<and>
     distinct (map fst ranked) \<and>
     (\<forall>(s, f)\<in>set ranked.
        \<exists>row\<in>set (rows rt).
          vFindBestSolution (nestedLibrary row) p hw = Some s \<and> f = rowDistance rt p row)"
proof (intro conjI)
  assume t: "table lib = Some (asMatchingTable rt)"
    and r: "ranked = rankedTopMatch rt p (\<lambda>library. vFindBestSolution library p hw) k"
  have nonnull: "None \<notin> set (map (\<lambda>(s, f). Some s) ranked)"
    by auto
  then show top: "findTopSolutions dbg lib p hw k = Inr (map (\<lambda>(s, f). Some s) ranked)"
    by (simp add: findTopSolutions_def t asMatchingTable_def specFindTopMatch_def r Let_def
        del: set_map)
  show len: "length ranked \<le> nat k"
    using collectResolved_length [of "rowDistance rt p" _ k "rankedRows rt p" "[]"]
    by (simp add: r rankedTopMatch_def)
  show "\<exists>solutions. findTopSolutions dbg lib p hw k = Inr solutions \<and>
        length solutions \<le> nat k \<and> None \<notin> set solutions"
    using top len nonnull by (intro exI [of _ "map (\<lambda>(s, f). Some s) ranked"]) simp
  show "sorted (map snd ranked)"
    unfolding r rankedTopMatch_def
    by (rule collectResolved_sorted) (simp_all add: sorted_rankedRows)
  show "distinct (map fst ranked)"
    unfolding r rankedTopMatch_def
    by (rule collectResolved_distinct) simp
  show "\<forall>(s, f)\<in>set ranked.
        \<exists>row\<in>set (rows rt).
          vFindBestSolution (nestedLibrary row) p hw = Some s \<and> f = rowDistance rt p row"
    unfolding r rankedTopMatch_def
    by (auto dest!: collectResolved_resolved simp: set_rankedRows)
qed

text \<open>
  The scenario of the spec: of five rows, those of rank 2 and 4 do not resolve, and the
  three solutions asked for are those of rank 1, 3 and 5, in this order.
\<close>

theorem C2_top_solutions_witness:
  "table fiveRowLibrary = Some (asMatchingTable fiveRows) \<and>
   rankedTopMatch fiveRows 10 (\<lambda>library. vFindBestSolution library 10 0) 3 =
     [(1, 1), (3, 3), (5, 5)] \<and>
   findTopSolutions quiet fiveRowLibrary 10 0 3 = Inr [Some 1, Some 3, Some 5]"
proof -
  have t: "table fiveRowLibrary = Some (asMatchingTable fiveRows)"
    by (simp add: fiveRowLibrary_def)
  have r: "findTopSolutions quiet fiveRowLibrary 10 0 3 = Inr [Some 1, Some 3, Some 5]"
    using C2_top_solutions [OF t fiveRows_top [symmetric], of quiet, THEN conjunct1] by simp
  show ?thesis using t r fiveRows_top by simp
qed

subsection \<open>findAllSolutions\<close>

text \<open>
  C3: \<^verbatim>\<open>findAllSolutions\<close> with search type DEFAULT runs its loop over the rows that
  \<^verbatim>\<open>matchesInOrder\<close> gives for the problem, in that order, and with any other search type
  over the rows that \<^verbatim>\<open>GetAll\<close> gives; the loop returns the union of the sets that the
  nested \<^verbatim>\<open>findAllSolutions\<close> of these rows return. On the table of the spec the first
  list is the rows in ascending distance, a permutation of the rows of the table, the
  second list is the rows of the table; in both modes the result is the union over the
  rows whose nested result is not empty, so a row with an empty result adds nothing.
\<close>

theorem C3_all_solutions:
  "table lib = Some t \<Longrightarrow>
     findAllSolutions dbg lib p hw DEFAULT =
       Inr (insertAll (\<lambda>row. vFindAllSolutions row p hw DEFAULT) (matchesInOrder t p)) \<and>
     (st \<noteq> DEFAULT \<longrightarrow>
        findAllSolutions dbg lib p hw st =
          Inr (insertAll (\<lambda>row. vFindAllSolutions row p hw st) (GetAll t))) \<and>
     insertAll f ms = (\<Union>row\<in>set ms. f row) \<and>
     (t = asMatchingTable rt \<longrightarrow>
        matchesInOrder t p = map nestedLibrary (rankedRows rt p) \<and>
        sorted (map (rowDistance rt p) (rankedRows rt p)) \<and>
        mset (rankedRows rt p) = mset (rows rt) \<and>
        GetAll t = map nestedLibrary (rows rt) \<and>
        findAllSolutions dbg lib p hw st =
          Inr (\<Union>row\<in>{row \<in> set (rows rt). vFindAllSolutions (nestedLibrary row) p hw st \<noteq> {}}.
                 vFindAllSolutions (nestedLibrary row) p hw st))"
proof (intro conjI impI)
  assume t: "table lib = Some t"
  show "findAllSolutions dbg lib p hw DEFAULT =
       Inr (insertAll (\<lambda>row. vFindAllSolutions row p hw DEFAULT) (matchesInOrder t p))"
    by (simp add: findAllSolutions_def t)
  show "findAllSolutions dbg lib p hw st =
          Inr (insertAll (\<lambda>row. vFindAllSolutions row p hw st) (GetAll t))" if "st \<noteq> DEFAULT"
    using that by (simp add: findAllSolutions_def t)
  show "insertAll f ms = (\<Union>row\<in>set ms. f row)"
    by (rule insertAll_Union)
next
  assume t: "table lib = Some t" and rt: "t = asMatchingTable rt"
  show "matchesInOrder t p = map nestedLibrary (rankedRows rt p)"
    by (simp add: rt asMatchingTable_def)
  show "sorted (map (rowDistance rt p) (rankedRows rt p))"
    by (rule sorted_rankedRows)
  show "mset (rankedRows rt p) = mset (rows rt)"
    by (rule mset_rankedRows)
  show "GetAll t = map nestedLibrary (rows rt)"
    by (simp add: rt asMatchingTable_def allRows_def)
  have "set (if st \<noteq> DEFAULT then GetAll t else matchesInOrder t p) = nestedLibrary ` set (rows rt)"
    by (simp add: rt asMatchingTable_def allRows_def set_rankedRows)
  then have "findAllSolutions dbg lib p hw st =
      Inr (\<Union>row\<in>set (rows rt). vFindAllSolutions (nestedLibrary row) p hw st)"
    by (simp add: findAllSolutions_def t insertAll_Union Let_def)
  also have "(\<Union>row\<in>set (rows rt). vFindAllSolutions (nestedLibrary row) p hw st) =
      (\<Union>row\<in>{row \<in> set (rows rt). vFindAllSolutions (nestedLibrary row) p hw st \<noteq> {}}.
                 vFindAllSolutions (nestedLibrary row) p hw st)"
    by auto
  finally show "findAllSolutions dbg lib p hw st =
          Inr (\<Union>row\<in>{row \<in> set (rows rt). vFindAllSolutions (nestedLibrary row) p hw st \<noteq> {}}.
                 vFindAllSolutions (nestedLibrary row) p hw st)" .
qed

text \<open>
  Of the two rows the nearer one has no solution: in both modes the result is the one
  solution of the farther row.
\<close>

theorem C3_all_solutions_witness:
  "table (twoRowLibrary (Some 7) None) = Some (asMatchingTable (twoRows (Some 7) None)) \<and>
   EXHAUSTIVE \<noteq> DEFAULT \<and>
   findAllSolutions quiet (twoRowLibrary (Some 7) None) 10 0 DEFAULT = Inr {Some 7} \<and>
   findAllSolutions quiet (twoRowLibrary (Some 7) None) 10 0 EXHAUSTIVE = Inr {Some 7}"
proof -
  have t: "table (twoRowLibrary (Some 7) None) = Some (asMatchingTable (twoRows (Some 7) None))"
    by (simp add: twoRowLibrary_def)
  have a: "{row \<in> set (rows (twoRows (Some 7) None)).
             vFindAllSolutions (nestedLibrary row) 10 0 st \<noteq> {}} =
      {\<lparr> point = 15, nestedLibrary = leaf (Some 7) \<rparr>}" for st
    by (auto simp: twoRows_def leaf_def)
  have b: "vFindAllSolutions (leaf (Some 7)) 10 0 st = {Some 7}" for st
    by (simp add: leaf_def)
  have d: "findAllSolutions quiet (twoRowLibrary (Some 7) None) 10 0 st = Inr {Some 7}" for st
  proof -
    have "findAllSolutions quiet (twoRowLibrary (Some 7) None) 10 0 st =
        Inr (\<Union>row\<in>{row \<in> set (rows (twoRows (Some 7) None)).
                        vFindAllSolutions (nestedLibrary row) 10 0 st \<noteq> {}}.
               vFindAllSolutions (nestedLibrary row) 10 0 st)"
      using C3_all_solutions [OF t, of quiet 10 0 st "\<lambda>row. {}" "[]" "twoRows (Some 7) None"]
      by blast
    then show ?thesis by (simp add: a b)
  qed
  show ?thesis using t d by simp
qed

subsection \<open>The grouped entry points\<close>

text \<open>
  C4: for a batch with first problem \<open>p0\<close>, the rows that \<^verbatim>\<open>findAllSolutionsGroupedGemm\<close>
  matches are those the table gives for \<open>p0\<close> (or all rows, for a search type other than
  DEFAULT): two batches that agree on the first problem select the same rows, whatever
  their other problems. Each of these rows is then asked with the whole batch, so the
  two runs return the same whenever these rows answer the two batches alike.
  \<^verbatim>\<open>findTopSolutionsGroupedGemm\<close> queries the table at \<open>p0\<close> only, with the resolver that
  hands the whole batch to the nested library. On the table of the spec the rows it
  walks are the rows ranked for \<open>p0\<close>, and two batches with the same first problem that
  the nested libraries of the rows of the table resolve alike give the same result.
\<close>

theorem C4_grouped_first_problem:
  fixes lib :: "('p, 'h, 's) ProblemMatchingLibrary"
  shows "table lib = Some t \<Longrightarrow>
     matchesGroupedGemm lib (p0 # ps) st = matchesGroupedGemm lib (p0 # ps') st \<and>
     matchesGroupedGemm lib (p0 # ps) st =
       Inr (if st \<noteq> DEFAULT then GetAll t else matchesInOrder t p0) \<and>
     findAllSolutionsGroupedGemm dbg lib (p0 # ps) hw st =
       Inr (\<Union>row\<in>set (if st \<noteq> DEFAULT then GetAll t else matchesInOrder t p0).
              vFindAllSolutionsGroupedGemm row (p0 # ps) hw st) \<and>
     ((\<forall>row\<in>set (if st \<noteq> DEFAULT then GetAll t else matchesInOrder t p0).
          vFindAllSolutionsGroupedGemm row (p0 # ps) hw st =
          vFindAllSolutionsGroupedGemm row (p0 # ps') hw st) \<longrightarrow>
        findAllSolutionsGroupedGemm dbg lib (p0 # ps) hw st =
        findAllSolutionsGroupedGemm dbg lib (p0 # ps') hw st) \<and>
     findTopSolutionsGroupedGemm lib (p0 # ps) hw k =
       Inr (findTopMatch t p0 (\<lambda>library. vFindBestSolutionGrouped library (p0 # ps) hw) k) \<and>
     (t = asMatchingTable rt \<longrightarrow>
        findTopSolutionsGroupedGemm lib (p0 # ps) hw k =
          Inr (map (\<lambda>(s, f). Some s)
                 (collectResolved (rowDistance rt p0)
                    (\<lambda>library. vFindBestSolutionGrouped library (p0 # ps) hw) k
                    (rankedRows rt p0) [])) \<and>
        ((\<forall>row\<in>set (rows rt).
            vFindBestSolutionGrouped (nestedLibrary row) (p0 # ps) hw =
            vFindBestSolutionGrouped (nestedLibrary row) (p0 # ps') hw) \<longrightarrow>
           findTopSolutionsGroupedGemm lib (p0 # ps) hw k =
           findTopSolutionsGroupedGemm lib (p0 # ps') hw k))"
proof (intro conjI impI)
  assume t: "table lib = Some t"
  show "matchesGroupedGemm lib (p0 # ps) st = matchesGroupedGemm lib (p0 # ps') st"
    by (simp add: matchesGroupedGemm_def t)
  show "matchesGroupedGemm lib (p0 # ps) st =
       Inr (if st \<noteq> DEFAULT then GetAll t else matchesInOrder t p0)"
    by (simp add: matchesGroupedGemm_def t)
  show all: "findAllSolutionsGroupedGemm dbg lib (p0 # ps) hw st =
       Inr (\<Union>row\<in>set (if st \<noteq> DEFAULT then GetAll t else matchesInOrder t p0).
              vFindAllSolutionsGroupedGemm row (p0 # ps) hw st)" for ps
    by (simp add: findAllSolutionsGroupedGemm_def matchesGroupedGemm_def t insertAll_Union)
  show "findAllSolutionsGroupedGemm dbg lib (p0 # ps) hw st =
        findAllSolutionsGroupedGemm dbg lib (p0 # ps') hw st"
    if "\<forall>row\<in>set (if st \<noteq> DEFAULT then GetAll t else matchesInOrder t p0).
          vFindAllSolutionsGroupedGemm row (p0 # ps) hw st =
          vFindAllSolutionsGroupedGemm row (p0 # ps') hw st"
    using that by (simp only: all) simp
  show "findTopSolutionsGroupedGemm lib (p0 # ps) hw k =
       Inr (findTopMatch t p0 (\<lambda>library. vFindBestSolutionGrouped library (p0 # ps) hw) k)"
    by (simp add: findTopSolutionsGroupedGemm_def t)
next
  assume t: "table lib = Some t" and rt: "t = asMatchingTable rt"
  show top: "findTopSolutionsGroupedGemm lib (p0 # ps) hw k =
          Inr (map (\<lambda>(s, f). Some s)
                 (collectResolved (rowDistance rt p0)
                    (\<lambda>library. vFindBestSolutionGrouped library (p0 # ps) hw) k
                    (rankedRows rt p0) []))" for ps
    by (simp add: findTopSolutionsGroupedGemm_def t rt asMatchingTable_def
        specFindTopMatch_def rankedTopMatch_def)
  assume "\<forall>row\<in>set (rows rt).
            vFindBestSolutionGrouped (nestedLibrary row) (p0 # ps) hw =
            vFindBestSolutionGrouped (nestedLibrary row) (p0 # ps') hw"
  then have "collectResolved (rowDistance rt p0)
        (\<lambda>library. vFindBestSolutionGrouped library (p0 # ps) hw) k (rankedRows rt p0) [] =
      collectResolved (rowDistance rt p0)
        (\<lambda>library. vFindBestSolutionGrouped library (p0 # ps') hw) k (rankedRows rt p0) []"
    by (intro collectResolved_cong) (simp add: set_rankedRows)
  then show "findTopSolutionsGroupedGemm lib (p0 # ps) hw k =
           findTopSolutionsGroupedGemm lib (p0 # ps') hw k"
    by (simp only: top)
qed

text \<open>
  Two runs each, on batches of two and of three problems with the same first problem.
  The nested library of the one row of \<open>batchRows\<close> names its solution after the length
  of the batch: both runs match this row, and they get solutions 2 and 3. The nested
  libraries of the two rows answer every batch alike: both runs return the same.
\<close>

theorem C4_grouped_first_problem_witness:
  "table batchLibrary = Some (asMatchingTable batchRows) \<and>
   table (twoRowLibrary (Some 7) (Some 8)) = Some (asMatchingTable (twoRows (Some 7) (Some 8))) \<and>
   matchesGroupedGemm batchLibrary [10, 11] DEFAULT =
     matchesGroupedGemm batchLibrary [10, 20, 30] DEFAULT \<and>
   findAllSolutionsGroupedGemm quiet batchLibrary [10, 11] 0 DEFAULT = Inr {Some 2} \<and>
   findAllSolutionsGroupedGemm quiet batchLibrary [10, 20, 30] 0 DEFAULT = Inr {Some 3} \<and>
   findTopSolutionsGroupedGemm batchLibrary [10, 11] 0 3 = Inr [Some 2] \<and>
   findTopSolutionsGroupedGemm batchLibrary [10, 20, 30] 0 3 = Inr [Some 3] \<and>
   map (\<lambda>row. vFindBestSolutionGrouped (nestedLibrary row) [10, 11] 0)
     (rows (twoRows (Some 7) (Some 8))) =
   map (\<lambda>row. vFindBestSolutionGrouped (nestedLibrary row) [10, 20, 30] 0)
     (rows (twoRows (Some 7) (Some 8))) \<and>
   findTopSolutionsGroupedGemm (twoRowLibrary (Some 7) (Some 8)) [10, 11] 0 3 =
     findTopSolutionsGroupedGemm (twoRowLibrary (Some 7) (Some 8)) [10, 20, 30] 0 3 \<and>
   findTopSolutionsGroupedGemm (twoRowLibrary (Some 7) (Some 8)) [10, 11] 0 3 =
     Inr [Some 8, Some 7]"
proof -
  have t: "table batchLibrary = Some (asMatchingTable batchRows)"
    by (simp add: batchLibrary_def)
  have t2: "table (twoRowLibrary (Some 7) (Some 8)) =
      Some (asMatchingTable (twoRows (Some 7) (Some 8)))"
    by (simp add: twoRowLibrary_def)
  have m: "matchesInOrder (asMatchingTable batchRows) p = [batchLeaf]" for p
    by (simp add: asMatchingTable_def batchRows_ranked)
  have u: "(\<Union>row\<in>set (if DEFAULT \<noteq> DEFAULT then GetAll (asMatchingTable batchRows)
                        else matchesInOrder (asMatchingTable batchRows) 10).
             vFindAllSolutionsGroupedGemm row ps 0 DEFAULT) = {Some (length ps)}" for ps
    by (simp add: m batchLeaf_def)
  have w: "map (\<lambda>(s, f). Some s)
      (collectResolved (rowDistance batchRows 10)
         (\<lambda>library. vFindBestSolutionGrouped library ps 0) 3 (rankedRows batchRows 10) []) =
      [Some (length ps)]" for ps
    by (simp add: batchRows_ranked batchLeaf_def)
  have w2: "map (\<lambda>(s, f). Some s)
      (collectResolved (rowDistance (twoRows (Some 7) (Some 8)) 10)
         (\<lambda>library. vFindBestSolutionGrouped library ps 0) 3
         (rankedRows (twoRows (Some 7) (Some 8)) 10) []) = [Some 8, Some 7]" for ps
    by (simp add: twoRows_ranked leaf_def)
  have same: "map (\<lambda>row. vFindBestSolutionGrouped (nestedLibrary row) [10, 11] 0)
        (rows (twoRows (Some 7) (Some 8))) =
      map (\<lambda>row. vFindBestSolutionGrouped (nestedLibrary row) [10, 20, 30] 0)
        (rows (twoRows (Some 7) (Some 8)))"
    by (simp add: twoRows_def leaf_def)
  have alike: "\<forall>row\<in>set (rows (twoRows (Some 7) (Some 8))).
      vFindBestSolutionGrouped (nestedLibrary row) [10, 11] 0 =
      vFindBestSolutionGrouped (nestedLibrary row) [10, 20, 30] 0"
    by (simp add: twoRows_def leaf_def)
  have a: "matchesGroupedGemm batchLibrary [10, 11] DEFAULT =
      matchesGroupedGemm batchLibrary [10, 20, 30] DEFAULT"
    using C4_grouped_first_problem [OF t, of 10 "[11]" DEFAULT "[20, 30]", THEN conjunct1] .
  have b: "findAllSolutionsGroupedGemm quiet batchLibrary [10, 11] 0 DEFAULT = Inr {Some 2}"
    using C4_grouped_first_problem [OF t, of 10 "[11]" DEFAULT "[]" quiet 0 3,
        THEN conjunct2, THEN conjunct2, THEN conjunct1]
    by (simp only: u) simp
  have c: "findAllSolutionsGroupedGemm quiet batchLibrary [10, 20, 30] 0 DEFAULT = Inr {Some 3}"
    using C4_grouped_first_problem [OF t, of 10 "[20, 30]" DEFAULT "[]" quiet 0 3,
        THEN conjunct2, THEN conjunct2, THEN conjunct1]
    by (simp only: u) simp
  have last: "t' = asMatchingTable rt \<longrightarrow>
        findTopSolutionsGroupedGemm lib (p0 # ps) hw k =
          Inr (map (\<lambda>(s, f). Some s)
                 (collectResolved (rowDistance rt p0)
                    (\<lambda>library. vFindBestSolutionGrouped library (p0 # ps) hw) k
                    (rankedRows rt p0) [])) \<and>
        ((\<forall>row\<in>set (rows rt).
            vFindBestSolutionGrouped (nestedLibrary row) (p0 # ps) hw =
            vFindBestSolutionGrouped (nestedLibrary row) (p0 # ps') hw) \<longrightarrow>
           findTopSolutionsGroupedGemm lib (p0 # ps) hw k =
           findTopSolutionsGroupedGemm lib (p0 # ps') hw k)"
    if "table lib = Some t'" for lib :: "(nat, nat, nat) ProblemMatchingLibrary"
      and t' and rt :: "(nat, nat, nat, nat) RowTable" and p0 ps ps' hw k
    using C4_grouped_first_problem [OF that, of p0 ps DEFAULT ps' quiet hw k rt] by blast
  have d: "findTopSolutionsGroupedGemm batchLibrary [10, 11] 0 3 = Inr [Some 2]"
    using last [OF t, of batchRows 10 "[11]" 0 3 "[]"] by (simp add: w)
  have e: "findTopSolutionsGroupedGemm batchLibrary [10, 20, 30] 0 3 = Inr [Some 3]"
    using last [OF t, of batchRows 10 "[20, 30]" 0 3 "[]"] by (simp add: w)
  have f: "findTopSolutionsGroupedGemm (twoRowLibrary (Some 7) (Some 8)) [10, 11] 0 3 =
      findTopSolutionsGroupedGemm (twoRowLibrary (Some 7) (Some 8)) [10, 20, 30] 0 3"
    using last [OF t2, of "twoRows (Some 7) (Some 8)" 10 "[11]" 0 3 "[20, 30]"] alike by blast
  have g: "findTopSolutionsGroupedGemm (twoRowLibrary (Some 7) (Some 8)) [10, 11] 0 3 =
      Inr [Some 8, Some 7]"
    using last [OF t2, of "twoRows (Some 7) (Some 8)" 10 "[11]" 0 3 "[]"] by (simp add: w2)
  show ?thesis using t t2 a b c d e same f g by simp
qed

text \<open>
  C9: neither grouped entry point guards against an empty batch.
  \<^verbatim>\<open>findTopSolutionsGroupedGemm\<close> indexes \<^verbatim>\<open>problems[0]\<close> on every call, and
  \<^verbatim>\<open>findAllSolutionsGroupedGemm\<close> on every call with search type DEFAULT: there an empty
  batch is a fault. With any other search type \<^verbatim>\<open>findAllSolutionsGroupedGemm\<close> does not
  index the batch and returns the union over all rows also for the empty batch. On a
  non-empty batch, with a table, both return.
\<close>

theorem C9_grouped_batch:
  "table lib = Some t \<Longrightarrow>
     findTopSolutionsGroupedGemm lib [] hw k = Inl EmptyBatch \<and>
     findAllSolutionsGroupedGemm dbg lib [] hw DEFAULT = Inl EmptyBatch \<and>
     (st \<noteq> DEFAULT \<longrightarrow>
        findAllSolutionsGroupedGemm dbg lib [] hw st =
          Inr (\<Union>row\<in>set (GetAll t). vFindAllSolutionsGroupedGemm row [] hw st)) \<and>
     (ps \<noteq> [] \<longrightarrow>
        findTopSolutionsGroupedGemm lib ps hw k =
          Inr (findTopMatch t (hd ps) (\<lambda>library. vFindBestSolutionGrouped library ps hw) k) \<and>
        (\<exists>found. findAllSolutionsGroupedGemm dbg lib ps hw st = Inr found))"
  by (cases ps) (simp_all add: findTopSolutionsGroupedGemm_def findAllSolutionsGroupedGemm_def
      matchesGroupedGemm_def insertAll_Union Let_def)

theorem C9_grouped_batch_witness:
  "table (twoRowLibrary (Some 7) (Some 8)) = Some (asMatchingTable (twoRows (Some 7) (Some 8))) \<and>
   EXHAUSTIVE \<noteq> DEFAULT \<and> [10, 11] \<noteq> ([] :: nat list) \<and>
   findTopSolutionsGroupedGemm (twoRowLibrary (Some 7) (Some 8)) [] 0 3 = Inl EmptyBatch \<and>
   findAllSolutionsGroupedGemm quiet (twoRowLibrary (Some 7) (Some 8)) [] 0 DEFAULT =
     Inl EmptyBatch \<and>
   findAllSolutionsGroupedGemm quiet (twoRowLibrary (Some 7) (Some 8)) [] 0 EXHAUSTIVE =
     Inr {Some 7, Some 8} \<and>
   findTopSolutionsGroupedGemm (twoRowLibrary (Some 7) (Some 8)) [10, 11] 0 3 =
     Inr [Some 8, Some 7]"
proof -
  have t: "table (twoRowLibrary (Some 7) (Some 8)) =
      Some (asMatchingTable (twoRows (Some 7) (Some 8)))"
    by (simp add: twoRowLibrary_def)
  have g: "(\<Union>row\<in>set (GetAll (asMatchingTable (twoRows (Some 7) (Some 8)))).
              vFindAllSolutionsGroupedGemm row [] 0 EXHAUSTIVE) = {Some 7, Some 8}"
    by (auto simp: asMatchingTable_def allRows_def twoRows_def leaf_def)
  have top: "findTopMatch (asMatchingTable (twoRows (Some 7) (Some 8))) 10
      (\<lambda>library. vFindBestSolutionGrouped library [10, 11] 0) 3 = [Some 8, Some 7]"
    by (simp add: asMatchingTable_def specFindTopMatch_def rankedTopMatch_def twoRows_ranked
        leaf_def)
  show ?thesis
    using t C9_grouped_batch [OF t, of 0 3 quiet EXHAUSTIVE "[10, 11]"]
    by (simp add: g top)
qed

text \<open>
  Against unconditional indexing of the batch by both entry points: with a search type
  other than DEFAULT, \<^verbatim>\<open>findAllSolutionsGroupedGemm\<close> returns on the empty batch.
\<close>

theorem C9_counterexample:
  "table emptyLibrary \<noteq> None \<and>
   findAllSolutionsGroupedGemm quiet emptyLibrary [] 0 EXHAUSTIVE = Inr {}"
  by (simp add: findAllSolutionsGroupedGemm_def matchesGroupedGemm_def insertAll_Union
      emptyLibrary_def asMatchingTable_def allRows_def emptyRows_def)

subsection \<open>The table without rows\<close>

text \<open>
  C7: on the table of the spec with no rows \<^verbatim>\<open>findBestSolution\<close> returns the null
  solution, whatever the debug-selection flag. With the flag inactive it writes the
  sentinel fitness into the caller's cell; with the flag active it leaves the cell as it
  was. Every other query returns the null solution, the empty set or the empty vector
  and no fault, the grouped ones on the non-empty batch that they require (or, for the
  enumeration, with a search type other than DEFAULT).
\<close>

theorem C7_empty_table:
  "table lib = Some (asMatchingTable rt) \<Longrightarrow> rows rt = [] \<Longrightarrow>
     findBestSolution dbg lib p hw fitness =
       Inr (None, if enableDebugSelection dbg then fitness
                  else map_option (\<lambda>_. numeric_limits_double_max) fitness) \<and>
     getSolutionByIndex lib p hw i = Inr None \<and>
     findAllSolutions dbg lib p hw st = Inr {} \<and>
     findTopSolutions dbg lib p hw k = Inr [] \<and>
     (ps \<noteq> [] \<or> st \<noteq> DEFAULT \<longrightarrow> findAllSolutionsGroupedGemm dbg lib ps hw st = Inr {}) \<and>
     (ps \<noteq> [] \<longrightarrow> findTopSolutionsGroupedGemm lib ps hw k = Inr [])"
proof (intro conjI impI)
  assume t: "table lib = Some (asMatchingTable rt)" and e: "rows rt = []"
  show "findBestSolution dbg lib p hw fitness =
       Inr (None, if enableDebugSelection dbg then fitness
                  else map_option (\<lambda>_. numeric_limits_double_max) fitness)"
  proof (cases "enableDebugSelection dbg")
    case True
    then show ?thesis
      by (simp add: findBestSolution_def t asMatchingTable_def
          specFindBestEvaluationSolution_empty [OF e])
  next
    case False
    then show ?thesis
      by (simp add: findBestSolution_quiet [OF _ t] asMatchingTable_def
          specFindBestMatch_empty [OF e])
  qed
  show "getSolutionByIndex lib p hw i = Inr None"
    by (simp add: getSolutionByIndex_def t asMatchingTable_def specFindBestMatch_empty [OF e])
  show "findAllSolutions dbg lib p hw st = Inr {}"
    by (simp add: findAllSolutions_def t asMatchingTable_def insertAll_Union allRows_def
        rankedRows_def e)
  show "findTopSolutions dbg lib p hw k = Inr []"
    by (simp add: findTopSolutions_def t asMatchingTable_def specFindTopMatch_def
        rankedTopMatch_empty [OF e])
  show "findAllSolutionsGroupedGemm dbg lib ps hw st = Inr {}" if "ps \<noteq> [] \<or> st \<noteq> DEFAULT"
    using that
    by (cases ps) (auto simp: findAllSolutionsGroupedGemm_def matchesGroupedGemm_def t
        asMatchingTable_def insertAll_Union allRows_def rankedRows_def e)
  show "findTopSolutionsGroupedGemm lib ps hw k = Inr []" if "ps \<noteq> []"
    using that
    by (cases ps) (simp_all add: findTopSolutionsGroupedGemm_def t asMatchingTable_def
        specFindTopMatch_def rankedTopMatch_empty [OF e])
qed

theorem C7_empty_table_witness:
  "table emptyLibrary = Some (asMatchingTable emptyRows) \<and> rows emptyRows = [] \<and>
   \<not> enableDebugSelection quiet \<and> enableDebugSelection debugSelection \<and>
   [10, 11] \<noteq> ([] :: nat list) \<and>
   findBestSolution quiet emptyLibrary 10 0 (Some 0) = Inr (None, Some numeric_limits_double_max) \<and>
   findBestSolution quiet emptyLibrary 10 0 None = Inr (None, None) \<and>
   findBestSolution debugSelection emptyLibrary 10 0 (Some 0) = Inr (None, Some 0) \<and>
   getSolutionByIndex emptyLibrary 10 0 3 = Inr None \<and>
   findAllSolutions quiet emptyLibrary 10 0 DEFAULT = Inr {} \<and>
   findTopSolutions quiet emptyLibrary 10 0 3 = Inr [] \<and>
   findAllSolutionsGroupedGemm quiet emptyLibrary [10, 11] 0 DEFAULT = Inr {} \<and>
   findTopSolutionsGroupedGemm emptyLibrary [10, 11] 0 3 = Inr []"
proof -
  have t: "table emptyLibrary = Some (asMatchingTable emptyRows)"
    by (simp add: emptyLibrary_def)
  have e: "rows emptyRows = []"
    by (simp add: emptyRows_def)
  have q: "\<not> enableDebugSelection quiet"
    by (simp add: quiet_def)
  have d: "enableDebugSelection debugSelection"
    by (simp add: debugSelection_def)
  show ?thesis
    using t e q d C7_empty_table [OF t e, of quiet 10 0 "Some 0" 3 DEFAULT 3 "[10, 11]"]
      C7_empty_table [OF t e, of quiet 10 0 None 3 DEFAULT 3 "[10, 11]"]
      C7_empty_table [OF t e, of debugSelection 10 0 "Some 0" 3 DEFAULT 3 "[10, 11]"]
    by simp
qed

text \<open>
  Against the fitness being the sentinel on every call on a table without rows: with the
  debug-selection flag active the null solution is returned and the caller's cell, which
  held 0, still holds 0.
\<close>

theorem C7_counterexample:
  "rows emptyRows = [] \<and> table emptyLibrary = Some (asMatchingTable emptyRows) \<and>
   findBestSolution debugSelection emptyLibrary 10 0 (Some 0) = Inr (None, Some 0) \<and>
   findBestSolution debugSelection emptyLibrary 10 0 (Some 0) \<noteq>
     Inr (None, Some numeric_limits_double_max)"
proof -
  have d: "findBestSolution debugSelection emptyLibrary 10 0 (Some 0) = Inr (None, Some 0)"
    by (simp add: findBestSolution_def Let_def debugSelection_def emptyLibrary_def
        asMatchingTable_def specFindBestEvaluationSolution_def resolvedCandidates_def
        rankedRows_def emptyRows_def)
  have "(0 :: real) < numeric_limits_double_max"
    by (simp add: numeric_limits_double_max_def)
  then show ?thesis
    by (simp add: d) (simp add: emptyRows_def emptyLibrary_def)
qed

subsection \<open>The null table\<close>

text \<open>
  C10: every query operation dereferences the table pointer without a check, in every
  branch: on a library whose table pointer is null each of \<^verbatim>\<open>getSolutionByIndex\<close>,
  \<^verbatim>\<open>findBestSolution\<close>, \<^verbatim>\<open>findAllSolutions\<close>, \<^verbatim>\<open>findAllSolutionsGroupedGemm\<close>,
  \<^verbatim>\<open>findTopSolutions\<close> and \<^verbatim>\<open>findTopSolutionsGroupedGemm\<close> is the null dereference,
  whatever its other arguments and the flags. Only \<^verbatim>\<open>description()\<close> and \<^verbatim>\<open>type()\<close> are
  defined there.
\<close>

theorem C10_null_table:
  "table lib = None \<Longrightarrow>
     getSolutionByIndex lib p hw i = Inl NullTable \<and>
     findBestSolution dbg lib p hw fitness = Inl NullTable \<and>
     findAllSolutions dbg lib p hw st = Inl NullTable \<and>
     findAllSolutionsGroupedGemm dbg lib ps hw st = Inl NullTable \<and>
     findTopSolutions dbg lib p hw k = Inl NullTable \<and>
     findTopSolutionsGroupedGemm lib ps hw k = Inl NullTable \<and>
     description lib = ''Matching, table: nullptr'' \<and>
     type lib = ''Matching''"
  by (simp add: getSolutionByIndex_def findBestSolution_def findAllSolutions_def
      findAllSolutionsGroupedGemm_def matchesGroupedGemm_def findTopSolutions_def
      findTopSolutionsGroupedGemm_def description_def concatenate_def type_def Type_def Let_def)

theorem C10_null_table_witness:
  "table nullLibrary = None \<and>
   getSolutionByIndex nullLibrary 10 0 3 = Inl NullTable \<and>
   findBestSolution quiet nullLibrary 10 0 (Some 0) = Inl NullTable \<and>
   findBestSolution debugSelection nullLibrary 10 0 (Some 0) = Inl NullTable \<and>
   findAllSolutions quiet nullLibrary 10 0 DEFAULT = Inl NullTable \<and>
   findAllSolutionsGroupedGemm quiet nullLibrary [10, 11] 0 EXHAUSTIVE = Inl NullTable \<and>
   findTopSolutions quiet nullLibrary 10 0 3 = Inl NullTable \<and>
   findTopSolutionsGroupedGemm nullLibrary [10, 11] 0 3 = Inl NullTable \<and>
   description nullLibrary = ''Matching, table: nullptr''"
proof -
  have h: "table nullLibrary = None" by (simp add: nullLibrary_def)
  show ?thesis
    using h C10_null_table [OF h, of 10 0 3 quiet "Some 0" DEFAULT "[10, 11]" 3]
      C10_null_table [OF h, of 10 0 3 quiet "Some 0" EXHAUSTIVE "[10, 11]" 3]
      C10_null_table [OF h, of 10 0 3 debugSelection "Some 0" DEFAULT "[10, 11]" 3]
    by simp
qed

subsection \<open>description\<close>

text \<open>
  C8: \<^verbatim>\<open>description()\<close> never faults. For a null table pointer it is the type name
  followed by the note that the table is null; otherwise it is the type name, a colon
  and the description of the table.
\<close>

theorem C8_description:
  "description lib =
     (case table lib of
        None \<Rightarrow> ''Matching, table: nullptr''
      | Some t \<Rightarrow> ''Matching: '' @ tableDescription t) \<and>
   type lib = ''Matching''"
  by (simp add: description_def concatenate_def type_def Type_def split: option.split)

end
